theory Spec2Isabelle
  imports Main
begin

section \<open>Values of the array library\<close>

text \<open>
  The two units of the repository, \<^verbatim>\<open>scipy/sparse/data.py\<close> and
  \<^verbatim>\<open>scipy/sparse/mtm.py\<close>, decorate sparse matrices whose storage is supplied by the
  rest of the library. Element types are the boolean dtype and a signed integer dtype
  (items as mathematical integers); floating-point dtypes are outside this development.
\<close>

datatype dtype = dt_bool | dt_int

datatype scalar = SBool bool | SInt int

datatype ndarray = BoolArr "bool list" | IntArr "int list"

datatype error = NotImplementedError | IndexError | ValueError | TypeError | ZeroDivisionError

fun arr_dtype :: "ndarray \<Rightarrow> dtype" where
  "arr_dtype (BoolArr bs) = dt_bool"
| "arr_dtype (IntArr xs) = dt_int"

fun arr_len :: "ndarray \<Rightarrow> nat" where
  "arr_len (BoolArr bs) = length bs"
| "arr_len (IntArr xs) = length xs"

text \<open>The integer a scalar counts as in arithmetic and comparisons (\<open>True\<close> is 1).\<close>

fun scalar_int :: "scalar \<Rightarrow> int" where
  "scalar_int (SBool b) = (if b then 1 else 0)"
| "scalar_int (SInt x) = x"

fun arr_ints :: "ndarray \<Rightarrow> int list" where
  "arr_ints (BoolArr bs) = map (\<lambda>b. if b then 1 else 0) bs"
| "arr_ints (IntArr xs) = xs"

text \<open>\<^verbatim>\<open>~a\<close> on an array: logical negation of booleans, bitwise complement of integers.\<close>

fun arr_invert :: "ndarray \<Rightarrow> ndarray" where
  "arr_invert (BoolArr bs) = BoolArr (map Not bs)"
| "arr_invert (IntArr xs) = IntArr (map (\<lambda>x. - x - 1) xs)"

text \<open>\<^verbatim>\<open>np.invert(v)\<close> on a scalar.\<close>

fun np_invert :: "scalar \<Rightarrow> scalar" where
  "np_invert (SBool b) = SBool (\<not> b)"
| "np_invert (SInt x) = SInt (- x - 1)"

text \<open>\<^verbatim>\<open>a.astype(t)\<close>: a new array of dtype \<open>t\<close>; an integer is true when non-zero.\<close>

fun arr_astype :: "ndarray \<Rightarrow> dtype \<Rightarrow> ndarray" where
  "arr_astype (BoolArr bs) dt_bool = BoolArr bs"
| "arr_astype (BoolArr bs) dt_int = IntArr (map (\<lambda>b. if b then 1 else 0) bs)"
| "arr_astype (IntArr xs) dt_bool = BoolArr (map (\<lambda>x. x \<noteq> 0) xs)"
| "arr_astype (IntArr xs) dt_int = IntArr xs"

text \<open>
  Assigning \<^verbatim>\<open>a.dtype = t\<close> reinterprets the buffer in place. Between the boolean and
  the one-byte integer dtype the bytes stay as they are: a stored \<open>True\<close> reads as 1.
\<close>

fun arr_set_dtype :: "ndarray \<Rightarrow> dtype \<Rightarrow> ndarray" where
  "arr_set_dtype (BoolArr bs) dt_bool = BoolArr bs"
| "arr_set_dtype (BoolArr bs) dt_int = IntArr (map (\<lambda>b. if b then 1 else 0) bs)"
| "arr_set_dtype (IntArr xs) dt_bool = BoolArr (map (\<lambda>x. x \<noteq> 0) xs)"
| "arr_set_dtype (IntArr xs) dt_int = IntArr xs"

text \<open>The six functions of \<^verbatim>\<open>operator\<close> that \<^verbatim>\<open>_relative\<close> is called with.\<close>

datatype relop = op_lt | op_le | op_eq | op_ne | op_gt | op_ge

fun apply_op :: "relop \<Rightarrow> int \<Rightarrow> int \<Rightarrow> bool" where
  "apply_op op_lt a b = (a < b)"
| "apply_op op_le a b = (a \<le> b)"
| "apply_op op_eq a b = (a = b)"
| "apply_op op_ne a b = (a \<noteq> b)"
| "apply_op op_gt a b = (a > b)"
| "apply_op op_ge a b = (a \<ge> b)"

text \<open>\<^verbatim>\<open>op(a, s)\<close> on an array and a scalar: the boolean array of the comparisons.\<close>

definition arr_op :: "relop \<Rightarrow> ndarray \<Rightarrow> scalar \<Rightarrow> ndarray" where
  "arr_op opr a s = BoolArr (map (\<lambda>x. apply_op opr x (scalar_int s)) (arr_ints a))"

section \<open>Sparse matrices and the object store\<close>

text \<open>
  Modelled from the spec: the sparse matrix type itself (\<^verbatim>\<open>scipy/sparse/base.py\<close> and
  the format classes) is not among the sources. The spec gives it a \<open>data\<close> buffer, a
  dtype, a shape and \<open>nnz\<close>, the count of explicitly stored entries. The sparsity pattern
  is the list \<open>index\<close> of the coordinates of the stored entries, parallel to \<open>data\<close>.
\<close>

record spmatrix =
  shape :: "nat \<times> nat"
  format :: string
  index :: "(nat \<times> nat) list"
  data :: ndarray

text \<open>
  Matrices are objects: the store is the list of the matrices allocated so far, and a
  reference is a position in it. An operation that builds a matrix allocates at the end.
\<close>

type_synonym ref = nat
type_synonym heap = "spmatrix list"

text \<open>
  \<^verbatim>\<open>class mostly_true_matrix\<close> (mtm.py): its only attribute is \<open>negative\<close>, the
  matrix whose boolean negation it represents.
\<close>

record mostly_true_matrix =
  negative :: ref

text \<open>What an operation of the two classes can return.\<close>

datatype pyval =
    VScalar scalar
  | VArray ndarray
  | VDense "ndarray list"
  | VSpm ref
  | VMtm mostly_true_matrix

definition alloc :: "heap \<Rightarrow> spmatrix \<Rightarrow> heap \<times> ref" where
  "alloc h m = (h @ [m], length h)"

text \<open>\<^verbatim>\<open>_data_matrix._get_dtype\<close> and \<^verbatim>\<open>_set_dtype\<close> (data.py, lines 27-32).\<close>

definition get_dtype :: "spmatrix \<Rightarrow> dtype" where
  "get_dtype m = arr_dtype (data m)"

definition set_dtype :: "heap \<Rightarrow> ref \<Rightarrow> dtype \<Rightarrow> heap" where
  "set_dtype h r newtype = h[r := (h ! r)\<lparr>data := arr_set_dtype (data (h ! r)) newtype\<rparr>]"

text \<open>
  Modelled from the spec: \<^verbatim>\<open>_with_data\<close> is provided by the format classes; the header
  of data.py says that it creates a new matrix with the same sparsity pattern as self
  but with a different data array.
\<close>

definition with_data :: "heap \<Rightarrow> ref \<Rightarrow> ndarray \<Rightarrow> heap \<times> ref" where
  "with_data h r d = alloc h ((h ! r)\<lparr>data := d\<rparr>)"

text \<open>\<^verbatim>\<open>_data_matrix.astype\<close> and \<^verbatim>\<open>_data_matrix.copy\<close> (data.py, lines 120-127).\<close>

definition astype :: "heap \<Rightarrow> ref \<Rightarrow> dtype \<Rightarrow> heap \<times> ref" where
  "astype h r t = with_data h r (arr_astype (data (h ! r)) t)"

definition copy :: "heap \<Rightarrow> ref \<Rightarrow> heap \<times> ref" where
  "copy h r = with_data h r (data (h ! r))"

text \<open>
  Modelled from the spec: reading a matrix densely (\<^verbatim>\<open>toarray\<close>, \<^verbatim>\<open>diagonal\<close>,
  element access) belongs to the format classes. A position with no stored entry reads
  as zero (\<open>False\<close>); the library adds up entries stored at the same position, which for
  booleans is their disjunction.
\<close>

definition entry_int :: "(nat \<times> nat) list \<Rightarrow> int list \<Rightarrow> nat \<times> nat \<Rightarrow> int" where
  "entry_int idx xs ij = sum_list (map snd (filter (\<lambda>p. fst p = ij) (zip idx xs)))"

definition entry_bool :: "(nat \<times> nat) list \<Rightarrow> bool list \<Rightarrow> nat \<times> nat \<Rightarrow> bool" where
  "entry_bool idx bs ij = list_ex (\<lambda>p. fst p = ij \<and> snd p) (zip idx bs)"

definition entries :: "spmatrix \<Rightarrow> (nat \<times> nat) list \<Rightarrow> ndarray" where
  "entries m ps =
     (case data m of
        BoolArr bs \<Rightarrow> BoolArr (map (entry_bool (index m) bs) ps)
      | IntArr xs \<Rightarrow> IntArr (map (entry_int (index m) xs) ps))"

definition entry :: "spmatrix \<Rightarrow> nat \<times> nat \<Rightarrow> scalar" where
  "entry m ij =
     (case data m of
        BoolArr bs \<Rightarrow> SBool (entry_bool (index m) bs ij)
      | IntArr xs \<Rightarrow> SInt (entry_int (index m) xs ij))"

text \<open>A dense two-dimensional array is the list of its rows.\<close>

definition toarray :: "spmatrix \<Rightarrow> ndarray list" where
  "toarray m =
     map (\<lambda>i. entries m (map (\<lambda>j. (i, j)) [0..<snd (shape m)])) [0..<fst (shape m)]"

definition diagonal :: "spmatrix \<Rightarrow> ndarray" where
  "diagonal m = entries m (map (\<lambda>k. (k, k)) [0..<min (fst (shape m)) (snd (shape m))])"

text \<open>
  Modelled from the spec: \<open>nnz\<close> is the count of explicitly stored entries, the length
  of the data buffer; the attribute \<open>size\<close> is the same number.
\<close>

definition nnz :: "spmatrix \<Rightarrow> nat" where
  "nnz m = arr_len (data m)"

text \<open>
  Modelled from the spec: \<^verbatim>\<open>sum(axis)\<close> of the library adds the stored entries, booleans
  counting as 0 and 1: all of them with no axis, per column for axis 0, per row for
  axis 1; another axis is a \<open>ValueError\<close>.
\<close>

definition stored :: "spmatrix \<Rightarrow> ((nat \<times> nat) \<times> int) list" where
  "stored m = zip (index m) (arr_ints (data m))"

definition spm_sum :: "spmatrix \<Rightarrow> int option \<Rightarrow> error + pyval" where
  "spm_sum m axis =
     (case axis of
        None \<Rightarrow> Inr (VScalar (SInt (sum_list (arr_ints (data m)))))
      | Some a \<Rightarrow>
          if a = 0 then Inr (VArray (IntArr (map
              (\<lambda>j. sum_list (map snd (filter (\<lambda>p. snd (fst p) = j) (stored m))))
              [0..<snd (shape m)])))
          else if a = 1 then Inr (VArray (IntArr (map
              (\<lambda>i. sum_list (map snd (filter (\<lambda>p. fst (fst p) = i) (stored m))))
              [0..<fst (shape m)])))
          else Inl ValueError)"

text \<open>
  Modelled from the spec: indexing. A key is a pair of integers, which selects an element,
  or one integer, which selects a row as a new sparse matrix of one row. A negative
  integer counts from the end; an integer out of range is an \<open>IndexError\<close>.
\<close>

datatype key = KElem int int | KRow int

definition norm_index :: "int \<Rightarrow> nat \<Rightarrow> error + nat" where
  "norm_index i n =
     (let j = (if i < 0 then i + int n else i)
      in if 0 \<le> j \<and> j < int n then Inr (nat j) else Inl IndexError)"

definition in_row :: "(nat \<times> nat) list \<Rightarrow> nat \<Rightarrow> 'a list \<Rightarrow> 'a list" where
  "in_row idx i xs = map snd (filter (\<lambda>p. fst (fst p) = i) (zip idx xs))"

definition select_row :: "spmatrix \<Rightarrow> nat \<Rightarrow> spmatrix" where
  "select_row m i =
     \<lparr>shape = (1, snd (shape m)), format = format m,
      index = map (\<lambda>c. (0, snd c)) (in_row (index m) i (index m)),
      data = (case data m of
                BoolArr bs \<Rightarrow> BoolArr (in_row (index m) i bs)
              | IntArr xs \<Rightarrow> IntArr (in_row (index m) i xs))\<rparr>"

definition spm_getitem :: "heap \<Rightarrow> ref \<Rightarrow> key \<Rightarrow> heap \<times> (error + pyval)" where
  "spm_getitem h r k =
     (case k of
        KElem i j \<Rightarrow>
          (case norm_index i (fst (shape (h ! r))) of
             Inl e \<Rightarrow> (h, Inl e)
           | Inr i' \<Rightarrow>
               (case norm_index j (snd (shape (h ! r))) of
                  Inl e \<Rightarrow> (h, Inl e)
                | Inr j' \<Rightarrow> (h, Inr (VScalar (entry (h ! r) (i', j'))))))
      | KRow i \<Rightarrow>
          (case norm_index i (fst (shape (h ! r))) of
             Inl e \<Rightarrow> (h, Inl e)
           | Inr i' \<Rightarrow> (case alloc h (select_row (h ! r) i') of (h', r') \<Rightarrow> (h', Inr (VSpm r')))))"

text \<open>
  Modelled from the spec: item assignment in place. The value is cast to the dtype of the
  matrix; an element that becomes zero is no longer stored, another one is stored once.
  Assigning a scalar to a row assigns it to every element of the row.
\<close>

definition cast_bool :: "scalar \<Rightarrow> bool" where
  "cast_bool v = (scalar_int v \<noteq> 0)"

definition set_elem :: "spmatrix \<Rightarrow> nat \<times> nat \<Rightarrow> scalar \<Rightarrow> spmatrix" where
  "set_elem m ij v =
     (case data m of
        BoolArr bs \<Rightarrow>
          (let ps = filter (\<lambda>p. fst p \<noteq> ij) (zip (index m) bs)
                    @ (if cast_bool v then [(ij, True)] else [])
           in m\<lparr>index := map fst ps, data := BoolArr (map snd ps)\<rparr>)
      | IntArr xs \<Rightarrow>
          (let ps = filter (\<lambda>p. fst p \<noteq> ij) (zip (index m) xs)
                    @ (if scalar_int v \<noteq> 0 then [(ij, scalar_int v)] else [])
           in m\<lparr>index := map fst ps, data := IntArr (map snd ps)\<rparr>))"

definition spm_setitem :: "heap \<Rightarrow> ref \<Rightarrow> key \<Rightarrow> scalar \<Rightarrow> heap \<times> (error + unit)" where
  "spm_setitem h r k v =
     (case k of
        KElem i j \<Rightarrow>
          (case norm_index i (fst (shape (h ! r))) of
             Inl e \<Rightarrow> (h, Inl e)
           | Inr i' \<Rightarrow>
               (case norm_index j (snd (shape (h ! r))) of
                  Inl e \<Rightarrow> (h, Inl e)
                | Inr j' \<Rightarrow> (h[r := set_elem (h ! r) (i', j') v], Inr ())))
      | KRow i \<Rightarrow>
          (case norm_index i (fst (shape (h ! r))) of
             Inl e \<Rightarrow> (h, Inl e)
           | Inr i' \<Rightarrow>
               (h[r := fold (\<lambda>j m. set_elem m (i', j) v) [0..<snd (shape (h ! r))] (h ! r)],
                Inr ())))"

text \<open>
  Modelled from the spec: format conversion. \<^verbatim>\<open>asformat(f)\<close> returns the matrix itself
  when it already has format \<open>f\<close> and a new matrix with the same entries otherwise; an
  unknown format is a \<open>ValueError\<close>. \<^verbatim>\<open>tocsr()\<close> is \<^verbatim>\<open>asformat('csr')\<close> and so on.
  \<^verbatim>\<open>transpose()\<close> returns a new matrix with rows and columns exchanged.
\<close>

definition formats :: "string list" where
  "formats = [''bsr'', ''coo'', ''csc'', ''csr'', ''dia'', ''dok'', ''lil'']"

definition asformat :: "string \<Rightarrow> heap \<Rightarrow> ref \<Rightarrow> heap \<times> (error + ref)" where
  "asformat f h r =
     (if f \<notin> set formats then (h, Inl ValueError)
      else if format (h ! r) = f then (h, Inr r)
      else (case alloc h ((h ! r)\<lparr>format := f\<rparr>) of (h', r') \<Rightarrow> (h', Inr r')))"

definition transpose_spm :: "heap \<Rightarrow> ref \<Rightarrow> heap \<times> (error + ref)" where
  "transpose_spm h r =
     (case alloc h ((h ! r)\<lparr>shape := (snd (shape (h ! r)), fst (shape (h ! r))),
                             index := map (\<lambda>c. (snd c, fst c)) (index (h ! r))\<rparr>)
      of (h', r') \<Rightarrow> (h', Inr r'))"

definition getrow :: "int \<Rightarrow> heap \<Rightarrow> ref \<Rightarrow> heap \<times> (error + ref)" where
  "getrow i h r =
     (case norm_index i (fst (shape (h ! r))) of
        Inl e \<Rightarrow> (h, Inl e)
      | Inr i' \<Rightarrow> (case alloc h (select_row (h ! r) i') of (h', r') \<Rightarrow> (h', Inr r')))"



section \<open>The complement wrapper\<close>

text \<open>\<^verbatim>\<open>mostly_true_matrix.__init__\<close> (mtm.py, lines 46-52).\<close>

definition mtm_init :: "heap \<Rightarrow> ref \<Rightarrow> bool \<Rightarrow> heap \<times> mostly_true_matrix" where
  "mtm_init h neg cp =
     (case (if get_dtype (h ! neg) \<noteq> dt_bool then astype h neg dt_bool
            else if cp then copy h neg
            else (h, neg))
      of (h', neg') \<Rightarrow> (h', \<lparr>negative = neg'\<rparr>))"

text \<open>\<^verbatim>\<open>mostly_true_matrix.__invert__\<close> (mtm.py, lines 54-55).\<close>

definition mtm_invert :: "heap \<Rightarrow> mostly_true_matrix \<Rightarrow> heap \<times> ref" where
  "mtm_invert h w = copy h (negative w)"

section \<open>Elementwise operations of \<open>_data_matrix\<close>\<close>

text \<open>\<^verbatim>\<open>_data_matrix.__invert__\<close> (data.py, lines 46-50).\<close>

definition data_invert :: "heap \<Rightarrow> ref \<Rightarrow> heap \<times> pyval" where
  "data_invert h r =
     (if get_dtype (h ! r) = dt_bool
      then (case mtm_init h r True of (h', w) \<Rightarrow> (h', VMtm w))
      else (case with_data h r (arr_invert (data (h ! r))) of (h', r') \<Rightarrow> (h', VSpm r')))"

text \<open>The right operand of a binary operator of \<open>_data_matrix\<close>.\<close>

datatype operand = OScalar scalar | OArray ndarray | OSpm ref | OMtm mostly_true_matrix




text \<open>\<^verbatim>\<open>_data_matrix._relative\<close> (data.py, lines 67-74).\<close>

definition relative :: "heap \<Rightarrow> ref \<Rightarrow> operand \<Rightarrow> relop \<Rightarrow> heap \<times> (error + pyval)" where
  "relative h r other opr =
     (case other of
        OScalar s \<Rightarrow>
          (let d = arr_op opr (data (h ! r)) s
           in if apply_op opr 0 (scalar_int s)
              then (case with_data h r (arr_invert d) of
                      (h1, r1) \<Rightarrow> (case mtm_init h1 r1 True of (h2, w) \<Rightarrow> (h2, Inr (VMtm w))))
              else (case with_data h r d of (h1, r1) \<Rightarrow> (h1, Inr (VSpm r1))))
      | _ \<Rightarrow> (h, Inl NotImplementedError))"

text \<open>The six comparison operators (data.py, lines 76-92).\<close>

definition data_lt :: "heap \<Rightarrow> ref \<Rightarrow> operand \<Rightarrow> heap \<times> (error + pyval)" where
  "data_lt h r other = relative h r other op_lt"

definition data_le :: "heap \<Rightarrow> ref \<Rightarrow> operand \<Rightarrow> heap \<times> (error + pyval)" where
  "data_le h r other = relative h r other op_le"

definition data_eq :: "heap \<Rightarrow> ref \<Rightarrow> operand \<Rightarrow> heap \<times> (error + pyval)" where
  "data_eq h r other = relative h r other op_eq"

definition data_ne :: "heap \<Rightarrow> ref \<Rightarrow> operand \<Rightarrow> heap \<times> (error + pyval)" where
  "data_ne h r other = relative h r other op_ne"

definition data_gt :: "heap \<Rightarrow> ref \<Rightarrow> operand \<Rightarrow> heap \<times> (error + pyval)" where
  "data_gt h r other = relative h r other op_gt"

definition data_ge :: "heap \<Rightarrow> ref \<Rightarrow> operand \<Rightarrow> heap \<times> (error + pyval)" where
  "data_ge h r other = relative h r other op_ge"





section \<open>The mixin for minimum and maximum\<close>

text \<open>\<^verbatim>\<open>self.dtype.type(0)\<close>, \<^verbatim>\<open>np.max\<close>, \<^verbatim>\<open>np.min\<close> and the builtins \<^verbatim>\<open>max\<close>, \<^verbatim>\<open>min\<close>.\<close>

fun zero_of :: "dtype \<Rightarrow> scalar" where
  "zero_of dt_bool = SBool False"
| "zero_of dt_int = SInt 0"

fun np_max :: "ndarray \<Rightarrow> error + scalar" where
  "np_max (BoolArr []) = Inl ValueError"
| "np_max (BoolArr (b # bs)) = Inr (SBool (fold (\<or>) bs b))"
| "np_max (IntArr []) = Inl ValueError"
| "np_max (IntArr (x # xs)) = Inr (SInt (fold max xs x))"

fun np_min :: "ndarray \<Rightarrow> error + scalar" where
  "np_min (BoolArr []) = Inl ValueError"
| "np_min (BoolArr (b # bs)) = Inr (SBool (fold (\<and>) bs b))"
| "np_min (IntArr []) = Inl ValueError"
| "np_min (IntArr (x # xs)) = Inr (SInt (fold min xs x))"

definition py_max :: "scalar \<Rightarrow> scalar \<Rightarrow> scalar" where
  "py_max a b = (if scalar_int b > scalar_int a then b else a)"

definition py_min :: "scalar \<Rightarrow> scalar \<Rightarrow> scalar" where
  "py_min a b = (if scalar_int b < scalar_int a then b else a)"

text \<open>\<^verbatim>\<open>_minmax_mixin.max\<close> and \<^verbatim>\<open>_minmax_mixin.min\<close> (data.py, lines 164-198).\<close>

definition max_mixin :: "spmatrix \<Rightarrow> error + scalar" where
  "max_mixin m =
     (let zero = zero_of (get_dtype m)
      in if nnz m = 0 then Inr zero
         else (case np_max (data m) of
                 Inl e \<Rightarrow> Inl e
               | Inr mx \<Rightarrow>
                   if nnz m \<noteq> fst (shape m) * snd (shape m) then Inr (py_max zero mx)
                   else Inr mx))"

definition min_mixin :: "spmatrix \<Rightarrow> error + scalar" where
  "min_mixin m =
     (let zero = zero_of (get_dtype m)
      in if nnz m = 0 then Inr zero
         else (case np_min (data m) of
                 Inl e \<Rightarrow> Inl e
               | Inr mn \<Rightarrow>
                   if nnz m \<noteq> fst (shape m) * snd (shape m) then Inr (py_min zero mn)
                   else Inr mn))"

section \<open>Delegation in the complement wrapper\<close>

text \<open>
  \<^verbatim>\<open>class _delegate\<close> (mtm.py, lines 6-14): reading the attribute reads the attribute
  \<open>attr\<close> of the complement, assigning it assigns that attribute of the complement.
\<close>

definition delegate_get :: "(spmatrix \<Rightarrow> 'a) \<Rightarrow> heap \<Rightarrow> mostly_true_matrix \<Rightarrow> 'a" where
  "delegate_get attr h w = attr (h ! negative w)"

definition delegate_set ::
  "(heap \<Rightarrow> ref \<Rightarrow> 'v \<Rightarrow> 'r) \<Rightarrow> heap \<Rightarrow> mostly_true_matrix \<Rightarrow> 'v \<Rightarrow> 'r" where
  "delegate_set setattr h w v = setattr h (negative w) v"

text \<open>\<^verbatim>\<open>~v\<close> on the values a delegate can return.\<close>

definition py_invert :: "heap \<Rightarrow> pyval \<Rightarrow> heap \<times> pyval" where
  "py_invert h v =
     (case v of
        VScalar s \<Rightarrow> (h, VScalar (np_invert s))
      | VArray a \<Rightarrow> (h, VArray (arr_invert a))
      | VDense rows \<Rightarrow> (h, VDense (map arr_invert rows))
      | VSpm r \<Rightarrow> data_invert h r
      | VMtm w \<Rightarrow> (case mtm_invert h w of (h', r') \<Rightarrow> (h', VSpm r')))"

text \<open>\<^verbatim>\<open>class _delegate_inverted\<close> (mtm.py, lines 17-27).\<close>

definition delegate_inverted ::
  "(heap \<Rightarrow> ref \<Rightarrow> 'a \<Rightarrow> heap \<times> (error + pyval)) \<Rightarrow>
   heap \<Rightarrow> mostly_true_matrix \<Rightarrow> 'a \<Rightarrow> heap \<times> (error + pyval)" where
  "delegate_inverted delegate h w args =
     (case delegate h (negative w) args of
        (h1, Inl e) \<Rightarrow> (h1, Inl e)
      | (h1, Inr v) \<Rightarrow> (case py_invert h1 v of (h2, v') \<Rightarrow> (h2, Inr v')))"

text \<open>\<^verbatim>\<open>class _delegate_mtm_nocopy\<close> (mtm.py, lines 30-39).\<close>

definition delegate_mtm_nocopy ::
  "(heap \<Rightarrow> ref \<Rightarrow> heap \<times> (error + ref)) \<Rightarrow>
   heap \<Rightarrow> mostly_true_matrix \<Rightarrow> heap \<times> (error + mostly_true_matrix)" where
  "delegate_mtm_nocopy delegate h w =
     (case delegate h (negative w) of
        (h1, Inl e) \<Rightarrow> (h1, Inl e)
      | (h1, Inr r1) \<Rightarrow> (case mtm_init h1 r1 False of (h2, w') \<Rightarrow> (h2, Inr w')))"

text \<open>The attributes of \<^verbatim>\<open>mostly_true_matrix\<close> (mtm.py, lines 66-86).\<close>

definition mtm_shape :: "heap \<Rightarrow> mostly_true_matrix \<Rightarrow> nat \<times> nat" where
  "mtm_shape = delegate_get shape"




definition mtm_dtype :: "heap \<Rightarrow> mostly_true_matrix \<Rightarrow> dtype" where
  "mtm_dtype = delegate_get get_dtype"

definition mtm_set_dtype :: "heap \<Rightarrow> mostly_true_matrix \<Rightarrow> dtype \<Rightarrow> heap" where
  "mtm_set_dtype = delegate_set set_dtype"

definition mtm_size :: "heap \<Rightarrow> mostly_true_matrix \<Rightarrow> nat" where
  "mtm_size = delegate_get nnz"

definition mtm_format :: "heap \<Rightarrow> mostly_true_matrix \<Rightarrow> string" where
  "mtm_format = delegate_get format"

definition mtm_asformat ::
  "string \<Rightarrow> heap \<Rightarrow> mostly_true_matrix \<Rightarrow> heap \<times> (error + mostly_true_matrix)" where
  "mtm_asformat f = delegate_mtm_nocopy (asformat f)"

definition mtm_tobsr :: "heap \<Rightarrow> mostly_true_matrix \<Rightarrow> heap \<times> (error + mostly_true_matrix)" where
  "mtm_tobsr = delegate_mtm_nocopy (asformat ''bsr'')"

definition mtm_tocoo :: "heap \<Rightarrow> mostly_true_matrix \<Rightarrow> heap \<times> (error + mostly_true_matrix)" where
  "mtm_tocoo = delegate_mtm_nocopy (asformat ''coo'')"

definition mtm_tocsc :: "heap \<Rightarrow> mostly_true_matrix \<Rightarrow> heap \<times> (error + mostly_true_matrix)" where
  "mtm_tocsc = delegate_mtm_nocopy (asformat ''csc'')"

definition mtm_tocsr :: "heap \<Rightarrow> mostly_true_matrix \<Rightarrow> heap \<times> (error + mostly_true_matrix)" where
  "mtm_tocsr = delegate_mtm_nocopy (asformat ''csr'')"

definition mtm_todia :: "heap \<Rightarrow> mostly_true_matrix \<Rightarrow> heap \<times> (error + mostly_true_matrix)" where
  "mtm_todia = delegate_mtm_nocopy (asformat ''dia'')"

definition mtm_todok :: "heap \<Rightarrow> mostly_true_matrix \<Rightarrow> heap \<times> (error + mostly_true_matrix)" where
  "mtm_todok = delegate_mtm_nocopy (asformat ''dok'')"

definition mtm_tolil :: "heap \<Rightarrow> mostly_true_matrix \<Rightarrow> heap \<times> (error + mostly_true_matrix)" where
  "mtm_tolil = delegate_mtm_nocopy (asformat ''lil'')"

definition copy_spm :: "heap \<Rightarrow> ref \<Rightarrow> heap \<times> (error + ref)" where
  "copy_spm h r = (case copy h r of (h', r') \<Rightarrow> (h', Inr r'))"

definition mtm_copy :: "heap \<Rightarrow> mostly_true_matrix \<Rightarrow> heap \<times> (error + mostly_true_matrix)" where
  "mtm_copy = delegate_mtm_nocopy copy_spm"

definition mtm_transpose :: "heap \<Rightarrow> mostly_true_matrix \<Rightarrow> heap \<times> (error + mostly_true_matrix)" where
  "mtm_transpose = delegate_mtm_nocopy transpose_spm"

definition mtm_getitem :: "heap \<Rightarrow> mostly_true_matrix \<Rightarrow> key \<Rightarrow> heap \<times> (error + pyval)" where
  "mtm_getitem = delegate_inverted spm_getitem"

definition mtm_getrow ::
  "int \<Rightarrow> heap \<Rightarrow> mostly_true_matrix \<Rightarrow> heap \<times> (error + mostly_true_matrix)" where
  "mtm_getrow i = delegate_mtm_nocopy (getrow i)"

definition mtm_diagonal :: "heap \<Rightarrow> mostly_true_matrix \<Rightarrow> unit \<Rightarrow> heap \<times> (error + pyval)" where
  "mtm_diagonal = delegate_inverted (\<lambda>h r u. (h, Inr (VArray (diagonal (h ! r)))))"

definition mtm_toarray :: "heap \<Rightarrow> mostly_true_matrix \<Rightarrow> unit \<Rightarrow> heap \<times> (error + pyval)" where
  "mtm_toarray = delegate_inverted (\<lambda>h r u. (h, Inr (VDense (toarray (h ! r)))))"

text \<open>The property \<^verbatim>\<open>T\<close> (mtm.py, lines 88-90).\<close>

definition mtm_T :: "heap \<Rightarrow> mostly_true_matrix \<Rightarrow> heap \<times> (error + mostly_true_matrix)" where
  "mtm_T h w = mtm_transpose h w"

text \<open>
  \<^verbatim>\<open>mostly_true_matrix.sum\<close> (mtm.py, lines 99-105); \<open>rsub n res\<close> is \<^verbatim>\<open>n - res\<close> for
  the scalar or the array of sums \<open>res\<close>.
\<close>

definition rsub :: "int \<Rightarrow> pyval \<Rightarrow> error + pyval" where
  "rsub n res =
     (case res of
        VScalar s \<Rightarrow> Inr (VScalar (SInt (n - scalar_int s)))
      | VArray a \<Rightarrow> Inr (VArray (IntArr (map (\<lambda>x. n - x) (arr_ints a))))
      | _ \<Rightarrow> Inl TypeError)"

definition mtm_sum :: "heap \<Rightarrow> mostly_true_matrix \<Rightarrow> int option \<Rightarrow> error + pyval" where
  "mtm_sum h w axis =
     (case spm_sum (h ! negative w) axis of
        Inl e \<Rightarrow> Inl e
      | Inr res \<Rightarrow>
          if axis = None then rsub (int (fst (mtm_shape h w) * snd (mtm_shape h w))) res
          else if axis = Some 0 then rsub (int (fst (mtm_shape h w))) res
          else rsub (int (snd (mtm_shape h w))) res)"

text \<open>\<^verbatim>\<open>mostly_true_matrix.__setitem__\<close> (mtm.py, lines 107-113).\<close>

definition mtm_setitem ::
  "heap \<Rightarrow> mostly_true_matrix \<Rightarrow> key \<Rightarrow> scalar \<Rightarrow> heap \<times> (error + unit)" where
  "mtm_setitem h w k val = spm_setitem h (negative w) k (np_invert val)"

section \<open>Reading results and sample matrices\<close>

text \<open>The dtype of a scalar.\<close>

fun scalar_dtype :: "scalar \<Rightarrow> dtype" where
  "scalar_dtype (SBool b) = dt_bool"
| "scalar_dtype (SInt x) = dt_int"

text \<open>Three integer matrices: without stored entries, partly stored, fully stored.\<close>

definition m_empty :: spmatrix where
  "m_empty = \<lparr>shape = (2, 2), format = ''csr'', index = [], data = IntArr []\<rparr>"

definition m_part :: spmatrix where
  "m_part = \<lparr>shape = (2, 2), format = ''csr'', index = [(0, 0), (1, 1)], data = IntArr [- 3, - 5]\<rparr>"

definition m_full :: spmatrix where
  "m_full = \<lparr>shape = (1, 2), format = ''csr'', index = [(0, 0), (0, 1)], data = IntArr [- 3, - 5]\<rparr>"

text \<open>The positions of a shape, row by row.\<close>

definition positions :: "nat \<times> nat \<Rightarrow> (nat \<times> nat) list" where
  "positions s = concat (map (\<lambda>i. map (\<lambda>j. (i, j)) [0..<snd s]) [0..<fst s])"




text \<open>Two boolean matrices.\<close>

definition m_mask :: spmatrix where
  "m_mask = \<lparr>shape = (2, 2), format = ''csr'', index = [(0, 1)], data = BoolArr [True]\<rparr>"

definition m_flags :: spmatrix where
  "m_flags = \<lparr>shape = (1, 2), format = ''csr'', index = [(0, 1)], data = BoolArr [True]\<rparr>"


text \<open>
  What the spec says of a call that is forwarded and rewrapped: \<open>forwards\<close> holds when
  the method of the wrapper raises what the call on the complement raises, and otherwise
  returns a wrapper whose complement is the very matrix that call returned, in the store
  that call left (nothing is allocated for the wrapper). \<open>keeps\<close> holds when the method
  returns a wrapper that reads densely as the wrapper it was called on.
\<close>

definition forwards ::
  "(heap \<Rightarrow> ref \<Rightarrow> heap \<times> (error + ref)) \<Rightarrow>
   (heap \<Rightarrow> mostly_true_matrix \<Rightarrow> heap \<times> (error + mostly_true_matrix)) \<Rightarrow>
   heap \<Rightarrow> mostly_true_matrix \<Rightarrow> bool" where
  "forwards delegate method h w =
     (case delegate h (negative w) of
        (h1, Inl e) \<Rightarrow> method h w = (h1, Inl e)
      | (h1, Inr r1) \<Rightarrow> method h w = (h1, Inr \<lparr>negative = r1\<rparr>))"

definition keeps ::
  "(heap \<Rightarrow> mostly_true_matrix \<Rightarrow> heap \<times> (error + mostly_true_matrix)) \<Rightarrow>
   heap \<Rightarrow> mostly_true_matrix \<Rightarrow> bool" where
  "keeps method h w =
     (case method h w of
        (h1, Inl e) \<Rightarrow> False
      | (h1, Inr w1) \<Rightarrow> snd (mtm_toarray h1 w1 ()) = snd (mtm_toarray h w ()))"


text \<open>
  The dense reading of a result: a scalar reads as a single element, an array as a single
  row, a sparse matrix as \<^verbatim>\<open>toarray()\<close> gives it, a complement wrapper as the negation of
  its complement.
\<close>

fun arr_of_scalar :: "scalar \<Rightarrow> ndarray" where
  "arr_of_scalar (SBool b) = BoolArr [b]"
| "arr_of_scalar (SInt x) = IntArr [x]"

definition read_dense :: "heap \<Rightarrow> pyval \<Rightarrow> ndarray list" where
  "read_dense h v =
     (case v of
        VScalar s \<Rightarrow> [arr_of_scalar s]
      | VArray a \<Rightarrow> [a]
      | VDense rows \<Rightarrow> rows
      | VSpm r \<Rightarrow> toarray (h ! r)
      | VMtm w \<Rightarrow> map arr_invert (toarray (h ! negative w)))"

definition all_bool :: "ndarray list \<Rightarrow> bool" where
  "all_bool rows = list_all (\<lambda>a. arr_dtype a = dt_bool) rows"


text \<open>How many elements a key selects: one, or a row.\<close>

fun key_width :: "spmatrix \<Rightarrow> key \<Rightarrow> nat" where
  "key_width m (KElem i j) = 1"
| "key_width m (KRow i) = snd (shape m)"


text \<open>The elementwise comparison of a dense array with a scalar.\<close>

definition dense_op :: "relop \<Rightarrow> ndarray list \<Rightarrow> scalar \<Rightarrow> ndarray list" where
  "dense_op opr rows s = map (\<lambda>row. arr_op opr row s) rows"

text \<open>
  A matrix in coordinate format that stores the position \<open>(0, 0)\<close> twice; read densely,
  its only element is 2.
\<close>

definition m_dup :: spmatrix where
  "m_dup = \<lparr>shape = (1, 1), format = ''coo'', index = [(0, 0), (0, 0)], data = IntArr [1, 1]\<rparr>"


text \<open>The number of true (non-zero) elements of a dense array.\<close>

definition count_true :: "ndarray list \<Rightarrow> nat" where
  "count_true rows = sum_list (map (\<lambda>a. length (filter (\<lambda>x. x \<noteq> 0) (arr_ints a))) rows)"

text \<open>
  A matrix is canonical when its pattern and data have the same length, every stored
  position lies within the shape, and no position is stored twice.
\<close>

definition canonical :: "spmatrix \<Rightarrow> bool" where
  "canonical m =
     (distinct (index m) \<and> length (index m) = arr_len (data m) \<and>
      list_all (\<lambda>c. fst c < fst (shape m) \<and> snd c < snd (shape m)) (index m))"

text \<open>A boolean matrix in coordinate format that stores \<open>True\<close> twice at \<open>(0, 0)\<close>.\<close>

definition m_twice :: spmatrix where
  "m_twice = \<lparr>shape = (1, 1), format = ''coo'', index = [(0, 0), (0, 0)], data = BoolArr [True, True]\<rparr>"


section \<open>Properties\<close>

lemma nth_alloc_old: "r < length h \<Longrightarrow> fst (alloc h m) ! r = h ! r"
  by (simp add: alloc_def nth_append)

lemma nth_alloc_new: "fst (alloc h m) ! snd (alloc h m) = m"
  by (simp add: alloc_def)

lemma arr_dtype_invert: "arr_dtype (arr_invert a) = arr_dtype a"
  by (cases a) simp_all

text \<open>
  Claim C7. On a matrix \<open>m\<close> of boolean dtype, \<^verbatim>\<open>~m\<close> is a wrapper whose complement is a
  newly allocated copy of \<open>m\<close>: a different object with the contents of \<open>m\<close>, and \<open>m\<close>
  itself is untouched. Inverting the wrapper again returns another newly allocated matrix
  with the contents of \<open>m\<close>. On a matrix of another dtype, \<^verbatim>\<open>~m\<close> is
  \<^verbatim>\<open>m._with_data(~m.data)\<close>.
\<close>

theorem invert_twice_is_copy:
  assumes "r < length h"
  shows "(get_dtype (h ! r) = dt_bool \<longrightarrow>
      (\<exists>h1 w. data_invert h r = (h1, VMtm w) \<and> h1 = h @ [h ! r] \<and>
           negative w = length h \<and> negative w \<noteq> r \<and>
           h1 ! negative w = h ! r \<and> h1 ! r = h ! r \<and>
           (\<exists>h2 r2. mtm_invert h1 w = (h2, r2) \<and> h2 = h1 @ [h ! r] \<and>
              r2 \<noteq> r \<and> r2 \<noteq> negative w \<and>
              h2 ! r2 = h ! r \<and> h2 ! r = h ! r \<and> h2 ! negative w = h ! r)))
   \<and> (get_dtype (h ! r) \<noteq> dt_bool \<longrightarrow>
      data_invert h r
        = (h @ [(h ! r)\<lparr>data := arr_invert (data (h ! r))\<rparr>], VSpm (length h)))"
  using assms
  by (simp add: data_invert_def mtm_init_def mtm_invert_def copy_def with_data_def alloc_def
      nth_append)

theorem invert_twice_is_copy_witness:
  "(0::nat) < length [m_flags] \<and> get_dtype ([m_flags] ! 0) = dt_bool
   \<and> data_invert [m_flags] 0 = ([m_flags, m_flags], VMtm \<lparr>negative = 1\<rparr>)
   \<and> mtm_invert [m_flags, m_flags] \<lparr>negative = 1\<rparr> = ([m_flags, m_flags, m_flags], 2)
   \<and> (0::nat) < length [m_part] \<and> get_dtype ([m_part] ! 0) \<noteq> dt_bool
   \<and> data_invert [m_part] 0 = ([m_part, m_part\<lparr>data := IntArr [2, 4]\<rparr>], VSpm 1)"
  using invert_twice_is_copy[of 0 "[m_flags]"] invert_twice_is_copy[of 0 "[m_part]"]
  by (auto simp add: get_dtype_def m_flags_def m_part_def mtm_invert_def copy_def with_data_def
      alloc_def)

lemma bool_fold_max:
  "(if fold (\<or>) bs b then 1 else 0) = fold max (map (\<lambda>b. if b then (1::int) else 0) bs) (if b then 1 else 0)"
  by (induction bs arbitrary: b) (auto simp: max_def)

lemma bool_fold_min:
  "(if fold (\<and>) bs b then 1 else 0) = fold min (map (\<lambda>b. if b then (1::int) else 0) bs) (if b then 1 else 0)"
  by (induction bs arbitrary: b) (auto simp: min_def)

lemma np_max_value:
  "0 < arr_len a \<Longrightarrow> \<exists>v. np_max a = Inr v \<and> scalar_int v = Max (set (arr_ints a))"
proof (cases a)
  case (BoolArr bs)
  assume "0 < arr_len a"
  then obtain b bs' where "bs = b # bs'" using BoolArr by (cases bs) auto
  then show ?thesis using BoolArr bool_fold_max[of bs' b]
      Max.set_eq_fold[of "if b then 1 else 0" "map (\<lambda>b. if b then (1::int) else 0) bs'"]
    by simp
next
  case (IntArr xs)
  assume "0 < arr_len a"
  then obtain x xs' where "xs = x # xs'" using IntArr by (cases xs) auto
  then show ?thesis using IntArr Max.set_eq_fold[of x xs'] by simp
qed

lemma np_min_value:
  "0 < arr_len a \<Longrightarrow> \<exists>v. np_min a = Inr v \<and> scalar_int v = Min (set (arr_ints a))"
proof (cases a)
  case (BoolArr bs)
  assume "0 < arr_len a"
  then obtain b bs' where "bs = b # bs'" using BoolArr by (cases bs) auto
  then show ?thesis using BoolArr bool_fold_min[of bs' b]
      Min.set_eq_fold[of "if b then 1 else 0" "map (\<lambda>b. if b then (1::int) else 0) bs'"]
    by simp
next
  case (IntArr xs)
  assume "0 < arr_len a"
  then obtain x xs' where "xs = x # xs'" using IntArr by (cases xs) auto
  then show ?thesis using IntArr Min.set_eq_fold[of x xs'] by simp
qed

lemma np_max_dtype: "np_max a = Inr v \<Longrightarrow> scalar_dtype v = arr_dtype a"
  by (induction a rule: np_max.induct) auto

lemma np_min_dtype: "np_min a = Inr v \<Longrightarrow> scalar_dtype v = arr_dtype a"
  by (induction a rule: np_min.induct) auto

lemma scalar_int_zero_of: "scalar_int (zero_of t) = 0"
  by (cases t) simp_all

text \<open>
  Claim C10. \<^verbatim>\<open>max()\<close> and \<^verbatim>\<open>min()\<close> of the mixin count the zeros that are not
  stored. With no stored entry the result is the zero of the dtype. With some but fewer
  stored entries than the shape has positions it is the maximum (minimum) of 0 and the
  stored data. With as many stored entries as positions it is the maximum (minimum) of
  the stored data. The result has the dtype of the matrix.
\<close>

theorem minmax_cases:
  "(nnz m = 0 \<longrightarrow>
      max_mixin m = Inr (zero_of (get_dtype m)) \<and> min_mixin m = Inr (zero_of (get_dtype m)))
   \<and> (0 < nnz m \<and> nnz m < fst (shape m) * snd (shape m) \<longrightarrow>
      (\<exists>mx mn. max_mixin m = Inr mx \<and> min_mixin m = Inr mn \<and>
         scalar_dtype mx = get_dtype m \<and> scalar_dtype mn = get_dtype m \<and>
         scalar_int mx = max 0 (Max (set (arr_ints (data m)))) \<and>
         scalar_int mn = min 0 (Min (set (arr_ints (data m))))))
   \<and> (0 < nnz m \<and> nnz m = fst (shape m) * snd (shape m) \<longrightarrow>
      (\<exists>mx mn. max_mixin m = Inr mx \<and> min_mixin m = Inr mn \<and>
         scalar_dtype mx = get_dtype m \<and> scalar_dtype mn = get_dtype m \<and>
         scalar_int mx = Max (set (arr_ints (data m))) \<and>
         scalar_int mn = Min (set (arr_ints (data m)))))"
proof (intro conjI impI)
  assume "nnz m = 0"
  then show "max_mixin m = Inr (zero_of (get_dtype m))" by (simp add: max_mixin_def)
next
  assume "nnz m = 0"
  then show "min_mixin m = Inr (zero_of (get_dtype m))" by (simp add: min_mixin_def)
next
  assume a: "0 < nnz m \<and> nnz m < fst (shape m) * snd (shape m)"
  then have pos: "0 < arr_len (data m)" by (simp add: nnz_def)
  obtain mx where mx: "np_max (data m) = Inr mx" "scalar_int mx = Max (set (arr_ints (data m)))"
    using np_max_value[OF pos] by blast
  obtain mn where mn: "np_min (data m) = Inr mn" "scalar_int mn = Min (set (arr_ints (data m)))"
    using np_min_value[OF pos] by blast
  have dz: "scalar_dtype (zero_of (get_dtype m)) = get_dtype m"
    by (cases "get_dtype m") simp_all
  have "max_mixin m = Inr (py_max (zero_of (get_dtype m)) mx)"
    using a mx by (simp add: max_mixin_def)
  moreover have "min_mixin m = Inr (py_min (zero_of (get_dtype m)) mn)"
    using a mn by (simp add: min_mixin_def)
  moreover have "scalar_dtype (py_max (zero_of (get_dtype m)) mx) = get_dtype m"
    using np_max_dtype[OF mx(1)] dz by (simp add: py_max_def get_dtype_def)
  moreover have "scalar_dtype (py_min (zero_of (get_dtype m)) mn) = get_dtype m"
    using np_min_dtype[OF mn(1)] dz by (simp add: py_min_def get_dtype_def)
  moreover have "scalar_int (py_max (zero_of (get_dtype m)) mx) = max 0 (Max (set (arr_ints (data m))))"
    using mx(2) by (simp add: py_max_def scalar_int_zero_of max_def)
  moreover have "scalar_int (py_min (zero_of (get_dtype m)) mn) = min 0 (Min (set (arr_ints (data m))))"
    using mn(2) by (simp add: py_min_def scalar_int_zero_of min_def)
  ultimately show "\<exists>mx mn. max_mixin m = Inr mx \<and> min_mixin m = Inr mn \<and>
         scalar_dtype mx = get_dtype m \<and> scalar_dtype mn = get_dtype m \<and>
         scalar_int mx = max 0 (Max (set (arr_ints (data m)))) \<and>
         scalar_int mn = min 0 (Min (set (arr_ints (data m))))" by blast
next
  assume a: "0 < nnz m \<and> nnz m = fst (shape m) * snd (shape m)"
  then have "0 < nnz m" by blast
  then have pos: "0 < arr_len (data m)" by (simp add: nnz_def)
  obtain mx where mx: "np_max (data m) = Inr mx" "scalar_int mx = Max (set (arr_ints (data m)))"
    using np_max_value[OF pos] by blast
  obtain mn where mn: "np_min (data m) = Inr mn" "scalar_int mn = Min (set (arr_ints (data m)))"
    using np_min_value[OF pos] by blast
  have "max_mixin m = Inr mx" using a mx by (auto simp add: max_mixin_def Let_def)
  moreover have "min_mixin m = Inr mn" using a mn by (auto simp add: min_mixin_def Let_def)
  ultimately show "\<exists>mx mn. max_mixin m = Inr mx \<and> min_mixin m = Inr mn \<and>
         scalar_dtype mx = get_dtype m \<and> scalar_dtype mn = get_dtype m \<and>
         scalar_int mx = Max (set (arr_ints (data m))) \<and>
         scalar_int mn = Min (set (arr_ints (data m)))"
    using mx(2) mn(2) np_max_dtype[OF mx(1)] np_min_dtype[OF mn(1)] by (auto simp: get_dtype_def)
qed

theorem minmax_cases_witness:
  "nnz m_empty = 0 \<and> max_mixin m_empty = Inr (SInt 0) \<and> min_mixin m_empty = Inr (SInt 0)
   \<and> 0 < nnz m_part \<and> nnz m_part < fst (shape m_part) * snd (shape m_part)
   \<and> max_mixin m_part = Inr (SInt 0) \<and> min_mixin m_part = Inr (SInt (- 5))
   \<and> 0 < nnz m_full \<and> nnz m_full = fst (shape m_full) * snd (shape m_full)
   \<and> max_mixin m_full = Inr (SInt (- 3)) \<and> min_mixin m_full = Inr (SInt (- 5))"
  using minmax_cases[of m_empty] minmax_cases[of m_part] minmax_cases[of m_full]
  by (simp add: m_empty_def m_part_def m_full_def nnz_def max_mixin_def min_mixin_def
      get_dtype_def py_max_def py_min_def)








text \<open>The constructor always leaves a boolean complement.\<close>

lemma mtm_init_boolean:
  assumes "neg < length h" and "mtm_init h neg cp = (h', w)"
  shows "get_dtype (h' ! negative w) = dt_bool"
proof (cases "get_dtype (h ! neg) = dt_bool")
  case True
  then show ?thesis using assms
    by (auto simp: mtm_init_def copy_def with_data_def alloc_def get_dtype_def nth_append
        split: if_splits)
next
  case False
  have "arr_dtype (arr_astype a dt_bool) = dt_bool" for a by (cases a) simp_all
  then show ?thesis using False assms
    by (auto simp: mtm_init_def astype_def with_data_def alloc_def get_dtype_def)
qed

text \<open>
  Claim C6 fails on the code. A wrapper built from a boolean matrix has boolean dtype,
  but \<^verbatim>\<open>dtype\<close> is delegated for assignment too (mtm.py, line 68, marked
  \<^verbatim>\<open>XXX: constrain?\<close>): after \<^verbatim>\<open>w.dtype = int\<close> the complement is an integer matrix.
\<close>

theorem dtype_assignment_breaks_boolean:
  "(case mtm_init [m_flags] 0 True of
      (h1, w) \<Rightarrow> mtm_dtype h1 w = dt_bool \<and> mtm_dtype (mtm_set_dtype h1 w dt_int) w = dt_int)"
  by (simp add: mtm_init_def get_dtype_def m_flags_def copy_def with_data_def alloc_def
      mtm_dtype_def mtm_set_dtype_def delegate_get_def delegate_set_def set_dtype_def)


lemma mtm_init_nocopy: "get_dtype (h ! r) = dt_bool \<Longrightarrow> mtm_init h r False = (h, \<lparr>negative = r\<rparr>)"
  by (simp add: mtm_init_def)

lemma nocopy_forwards:
  assumes "\<And>h1 r1. delegate h (negative w) = (h1, Inr r1) \<Longrightarrow> get_dtype (h1 ! r1) = dt_bool"
  shows "forwards delegate (delegate_mtm_nocopy delegate) h w"
proof (cases "delegate h (negative w)")
  case (Pair h1 res)
  show ?thesis
  proof (cases res)
    case (Inl e)
    with Pair show ?thesis by (simp add: forwards_def delegate_mtm_nocopy_def)
  next
    case (Inr r1)
    with Pair assms have "get_dtype (h1 ! r1) = dt_bool" by simp
    with Pair Inr show ?thesis
      by (simp add: forwards_def delegate_mtm_nocopy_def mtm_init_nocopy)
  qed
qed

lemma toarray_format [simp]: "toarray (m\<lparr>format := f\<rparr>) = toarray m"
  by (simp add: toarray_def entries_def split: ndarray.split)

lemma get_dtype_format [simp]: "get_dtype (m\<lparr>format := f\<rparr>) = get_dtype m"
  by (simp add: get_dtype_def)

lemma asformat_result:
  assumes "r < length h" "asformat f h r = (h1, Inr r1)"
  shows "get_dtype (h1 ! r1) = get_dtype (h ! r) \<and> toarray (h1 ! r1) = toarray (h ! r)"
  using assms by (auto simp: asformat_def alloc_def split: if_splits)

lemma asformat_succeeds:
  "f \<in> set formats \<Longrightarrow> \<exists>h1 r1. asformat f h r = (h1, Inr r1)"
  by (simp add: asformat_def alloc_def)

lemma copy_result:
  assumes "r < length h" "copy_spm h r = (h1, Inr r1)"
  shows "h1 = h @ [h ! r] \<and> r1 = length h"
  using assms by (auto simp: copy_spm_def copy_def with_data_def alloc_def)

lemma transpose_result:
  assumes "r < length h" "transpose_spm h r = (h1, Inr r1)"
  shows "get_dtype (h1 ! r1) = get_dtype (h ! r)"
  using assms by (auto simp: transpose_spm_def alloc_def get_dtype_def)

lemma mtm_toarray_eq:
  "mtm_toarray h w () = (h, Inr (VDense (map arr_invert (toarray (h ! negative w)))))"
  by (simp add: mtm_toarray_def delegate_inverted_def py_invert_def)

lemma asformat_forwards:
  assumes "negative w < length h" "get_dtype (h ! negative w) = dt_bool"
  shows "forwards (asformat f) (delegate_mtm_nocopy (asformat f)) h w"
  using asformat_result[OF assms(1)] assms(2) by (intro nocopy_forwards) simp

lemma asformat_keeps:
  assumes "negative w < length h" "get_dtype (h ! negative w) = dt_bool" "f \<in> set formats"
  shows "keeps (delegate_mtm_nocopy (asformat f)) h w"
proof -
  obtain h1 r1 where a: "asformat f h (negative w) = (h1, Inr r1)"
    using asformat_succeeds[OF assms(3)] by blast
  have r: "get_dtype (h1 ! r1) = dt_bool" "toarray (h1 ! r1) = toarray (h ! negative w)"
    using asformat_result[OF assms(1) a] assms(2) by simp_all
  have "delegate_mtm_nocopy (asformat f) h w = (h1, Inr \<lparr>negative = r1\<rparr>)"
    using a r(1) by (simp add: delegate_mtm_nocopy_def mtm_init_nocopy)
  then show ?thesis using r(2) by (simp add: keeps_def mtm_toarray_eq)
qed

text \<open>
  Claim C8. On a wrapper with a boolean complement, each of \<^verbatim>\<open>asformat\<close>, \<^verbatim>\<open>tobsr\<close>,
  \<^verbatim>\<open>tocoo\<close>, \<^verbatim>\<open>tocsc\<close>, \<^verbatim>\<open>tocsr\<close>, \<^verbatim>\<open>todia\<close>, \<^verbatim>\<open>todok\<close>, \<^verbatim>\<open>tolil\<close>, \<^verbatim>\<open>copy\<close>
  and \<^verbatim>\<open>transpose\<close> forwards the call to the complement and wraps the matrix it returns
  without copying it. The format conversions (to a known format) and \<^verbatim>\<open>copy\<close> succeed and
  the wrapper they return reads densely as the original wrapper does.
\<close>

theorem conversions_forward_and_rewrap:
  assumes "negative w < length h" and "get_dtype (h ! negative w) = dt_bool"
  shows "forwards (asformat f) (mtm_asformat f) h w
       \<and> forwards (asformat ''bsr'') mtm_tobsr h w
       \<and> forwards (asformat ''coo'') mtm_tocoo h w
       \<and> forwards (asformat ''csc'') mtm_tocsc h w
       \<and> forwards (asformat ''csr'') mtm_tocsr h w
       \<and> forwards (asformat ''dia'') mtm_todia h w
       \<and> forwards (asformat ''dok'') mtm_todok h w
       \<and> forwards (asformat ''lil'') mtm_tolil h w
       \<and> forwards copy_spm mtm_copy h w
       \<and> forwards transpose_spm mtm_transpose h w
       \<and> (f \<in> set formats \<longrightarrow> keeps (mtm_asformat f) h w)
       \<and> keeps mtm_tobsr h w \<and> keeps mtm_tocoo h w \<and> keeps mtm_tocsc h w
       \<and> keeps mtm_tocsr h w \<and> keeps mtm_todia h w \<and> keeps mtm_todok h w
       \<and> keeps mtm_tolil h w \<and> keeps mtm_copy h w"
proof -
  have fw: "\<And>g. forwards (asformat g) (delegate_mtm_nocopy (asformat g)) h w"
    using asformat_forwards[OF assms] .
  have kp: "\<And>g. g \<in> set formats \<Longrightarrow> keeps (delegate_mtm_nocopy (asformat g)) h w"
    using asformat_keeps[OF assms] .
  have cp: "forwards copy_spm mtm_copy h w"
    unfolding mtm_copy_def using copy_result[OF assms(1)] assms
    by (intro nocopy_forwards) (simp add: nth_append)
  have tr: "forwards transpose_spm mtm_transpose h w"
    unfolding mtm_transpose_def using transpose_result[OF assms(1)] assms(2)
    by (intro nocopy_forwards) simp
  have kc: "keeps mtm_copy h w"
    using assms
    by (simp add: keeps_def mtm_copy_def delegate_mtm_nocopy_def copy_spm_def copy_def
        with_data_def alloc_def mtm_init_def nth_append mtm_toarray_eq)
  show ?thesis
    using fw kp cp tr kc
    by (simp add: mtm_asformat_def mtm_tobsr_def mtm_tocoo_def mtm_tocsc_def mtm_tocsr_def
        mtm_todia_def mtm_todok_def mtm_tolil_def formats_def)
qed

theorem conversions_forward_and_rewrap_witness:
  "negative \<lparr>negative = 0\<rparr> < length [m_flags] \<and> get_dtype ([m_flags] ! 0) = dt_bool
   \<and> mtm_tocsr [m_flags] \<lparr>negative = 0\<rparr> = ([m_flags], Inr \<lparr>negative = 0\<rparr>)
   \<and> mtm_tocoo [m_flags] \<lparr>negative = 0\<rparr> = ([m_flags, m_flags\<lparr>format := ''coo''\<rparr>], Inr \<lparr>negative = 1\<rparr>)
   \<and> ''coo'' \<in> set formats \<and> keeps (mtm_asformat ''coo'') [m_flags] \<lparr>negative = 0\<rparr>"
  using conversions_forward_and_rewrap[of "\<lparr>negative = 0\<rparr>" "[m_flags]" "''coo''"]
  by (simp add: forwards_def asformat_def alloc_def m_flags_def get_dtype_def formats_def)


lemma get_dtype_bool: "get_dtype m = dt_bool \<Longrightarrow> \<exists>bs. data m = BoolArr bs"
  by (cases "data m") (simp_all add: get_dtype_def)

lemma entries_bool: "get_dtype m = dt_bool \<Longrightarrow> arr_dtype (entries m ps) = dt_bool"
  by (auto dest: get_dtype_bool simp: entries_def)

lemma toarray_bool: "get_dtype m = dt_bool \<Longrightarrow> all_bool (toarray m)"
  by (simp add: all_bool_def toarray_def list_all_iff entries_bool)

lemma select_row_dtype [simp]: "get_dtype (select_row m i) = get_dtype m"
  by (cases "data m") (simp_all add: select_row_def get_dtype_def)

lemma data_invert_bool:
  "get_dtype (h ! r) = dt_bool \<Longrightarrow> data_invert h r = (h @ [h ! r], VMtm \<lparr>negative = length h\<rparr>)"
  by (simp add: data_invert_def mtm_init_def copy_def with_data_def alloc_def)

lemma getitem_inverts:
  assumes ok: "negative w < length h" and bl: "get_dtype (h ! negative w) = dt_bool"
    and g: "spm_getitem h (negative w) k = (h1, Inr v)"
  shows "\<exists>h2 v'. mtm_getitem h w k = (h2, Inr v') \<and>
           read_dense h2 v' = map arr_invert (read_dense h1 v) \<and> all_bool (read_dense h1 v)"
proof (cases k)
  case (KElem i j)
  obtain bs where bs: "data (h ! negative w) = BoolArr bs" using get_dtype_bool[OF bl] by blast
  from g KElem obtain p where v: "h1 = h" "v = VScalar (entry (h ! negative w) p)"
    by (auto simp: spm_getitem_def split: sum.splits)
  then show ?thesis using g bs
    by (simp add: mtm_getitem_def delegate_inverted_def py_invert_def read_dense_def entry_def
        all_bool_def)
next
  case (KRow i)
  from g KRow obtain i' where v: "h1 = h @ [select_row (h ! negative w) i']" "v = VSpm (length h)"
    by (auto simp: spm_getitem_def alloc_def split: sum.splits)
  have d: "get_dtype (h1 ! length h) = dt_bool" using v bl by simp
  show ?thesis using g v d data_invert_bool[OF d] toarray_bool[OF d]
    by (simp add: mtm_getitem_def delegate_inverted_def py_invert_def read_dense_def nth_append)
qed

lemma getitem_error:
  "spm_getitem h (negative w) k = (h1, Inl e) \<Longrightarrow> mtm_getitem h w k = (h1, Inl e)"
  by (simp add: mtm_getitem_def delegate_inverted_def)

text \<open>
  Claim C3. On a wrapper with a boolean complement, \<^verbatim>\<open>w[k]\<close> for a valid key \<open>k\<close> reads
  densely as the elementwise logical negation of \<^verbatim>\<open>w.negative[k]\<close>, a boolean result; a
  key that the complement rejects is rejected with the same error. \<^verbatim>\<open>diagonal()\<close> and
  \<^verbatim>\<open>toarray()\<close> return the negation of what the complement returns.
\<close>

theorem reads_invert:
  assumes "negative w < length h" and "get_dtype (h ! negative w) = dt_bool"
  shows "(\<forall>h1 v. spm_getitem h (negative w) k = (h1, Inr v) \<longrightarrow>
            (\<exists>h2 v'. mtm_getitem h w k = (h2, Inr v') \<and>
               read_dense h2 v' = map arr_invert (read_dense h1 v) \<and> all_bool (read_dense h1 v)))
       \<and> (\<forall>h1 e. spm_getitem h (negative w) k = (h1, Inl e) \<longrightarrow> mtm_getitem h w k = (h1, Inl e))
       \<and> mtm_diagonal h w () = (h, Inr (VArray (arr_invert (diagonal (h ! negative w)))))
       \<and> arr_dtype (diagonal (h ! negative w)) = dt_bool
       \<and> mtm_toarray h w () = (h, Inr (VDense (map arr_invert (toarray (h ! negative w)))))
       \<and> all_bool (toarray (h ! negative w))"
  using getitem_inverts[OF assms] getitem_error toarray_bool[OF assms(2)] entries_bool[OF assms(2)]
  by (simp add: mtm_diagonal_def mtm_toarray_def delegate_inverted_def py_invert_def diagonal_def)


theorem reads_invert_witness:
  "negative \<lparr>negative = 0\<rparr> < length [m_mask] \<and> get_dtype ([m_mask] ! 0) = dt_bool
   \<and> spm_getitem [m_mask] 0 (KElem 0 (- 1)) = ([m_mask], Inr (VScalar (SBool True)))
   \<and> mtm_getitem [m_mask] \<lparr>negative = 0\<rparr> (KElem 0 (- 1)) = ([m_mask], Inr (VScalar (SBool False)))
   \<and> spm_getitem [m_mask] 0 (KRow 2) = ([m_mask], Inl IndexError)
   \<and> mtm_getitem [m_mask] \<lparr>negative = 0\<rparr> (KRow 2) = ([m_mask], Inl IndexError)
   \<and> mtm_toarray [m_mask] \<lparr>negative = 0\<rparr> ()
       = ([m_mask], Inr (VDense [BoolArr [True, False], BoolArr [True, True]]))"
  using reads_invert[of "\<lparr>negative = 0\<rparr>" "[m_mask]" "KElem 0 (- 1)"]
    reads_invert[of "\<lparr>negative = 0\<rparr>" "[m_mask]" "KRow 2"]
  by (simp add: m_mask_def get_dtype_def spm_getitem_def norm_index_def entry_def entry_bool_def
      mtm_getitem_def delegate_inverted_def py_invert_def toarray_def entries_def
      upt_rec[of _ 2] upt_rec[of _ "Suc (Suc 0)"])


lemma cast_bool_SBool [simp]: "cast_bool (SBool b) = b"
  by (simp add: cast_bool_def)

lemma set_elem_bool:
  assumes "get_dtype m = dt_bool"
  shows "get_dtype (set_elem m ij v) = dt_bool \<and> shape (set_elem m ij v) = shape m \<and>
         entry (set_elem m ij v) p = SBool (if p = ij then cast_bool v else cast_bool (entry m p))"
proof -
  obtain bs where bs: "data m = BoolArr bs" using get_dtype_bool[OF assms] by blast
  show ?thesis using bs
    by (auto simp: set_elem_def get_dtype_def entry_def entry_bool_def Let_def zip_map_fst_snd
        list_ex_iff)
qed

lemma fold_set_elem_bool:
  "get_dtype m = dt_bool \<Longrightarrow>
   get_dtype (fold (\<lambda>j m. set_elem m (i, j) v) js m) = dt_bool \<and>
   shape (fold (\<lambda>j m. set_elem m (i, j) v) js m) = shape m \<and>
   entry (fold (\<lambda>j m. set_elem m (i, j) v) js m) p =
     SBool (if p \<in> Pair i ` set js then cast_bool v else cast_bool (entry m p))"
proof (induction js arbitrary: m)
  case Nil
  then obtain bs where "data m = BoolArr bs" using get_dtype_bool by blast
  then show ?case using Nil by (simp add: entry_def)
next
  case (Cons j js)
  have s: "get_dtype (set_elem m (i, j) v) = dt_bool" "shape (set_elem m (i, j) v) = shape m"
    "entry (set_elem m (i, j) v) p = SBool (if p = (i, j) then cast_bool v else cast_bool (entry m p))"
    using set_elem_bool[OF Cons.prems] by simp_all
  show ?case using Cons.IH[OF s(1)] s(2) s(3) by auto
qed

lemma entry_bool_in_row:
  "entry_bool (map (\<lambda>c. (0, snd c)) (in_row idx i idx)) (in_row idx i bs) (0, j)
     = entry_bool idx bs (i, j)"
proof (induction idx arbitrary: bs)
  case Nil
  show ?case by (simp add: entry_bool_def in_row_def)
next
  case (Cons c idx)
  show ?case
  proof (cases bs)
    case Nil
    then show ?thesis by (simp add: entry_bool_def in_row_def)
  next
    case (Cons b bs')
    have "entry_bool (map (\<lambda>c. (0, snd c)) (in_row idx i idx)) (in_row idx i bs') (0, j)
            = entry_bool idx bs' (i, j)" by (rule Cons.IH)
    then show ?thesis using Cons
      by (cases c) (auto simp: entry_bool_def in_row_def)
  qed
qed

lemma toarray_select_row_bool:
  assumes "get_dtype m = dt_bool"
  shows "toarray (select_row m i) = [entries m (map (Pair i) [0..<snd (shape m)])]"
proof -
  obtain bs where bs: "data m = BoolArr bs" using get_dtype_bool[OF assms] by blast
  show ?thesis using bs
    by (simp add: toarray_def select_row_def entries_def entry_bool_in_row comp_def)
qed

lemma entries_const:
  assumes "get_dtype m = dt_bool" and "\<And>p. p \<in> set ps \<Longrightarrow> entry m p = SBool c"
  shows "entries m ps = BoolArr (replicate (length ps) c)"
proof -
  obtain bs where bs: "data m = BoolArr bs" using get_dtype_bool[OF assms(1)] by blast
  have "map (entry_bool (index m) bs) ps = map (\<lambda>p. c) ps"
    using assms(2) bs by (intro map_cong) (auto simp: entry_def)
  then show ?thesis using bs by (simp add: entries_def map_replicate_const)
qed

lemma norm_index_Inr: "norm_index i n = Inr i' \<Longrightarrow> i' < n"
  by (auto simp: norm_index_def Let_def split: if_splits)

text \<open>
  Claim C4. On a wrapper with a boolean complement, for a key \<open>k\<close> that the complement
  accepts and a boolean \<open>b\<close>, the assignment \<^verbatim>\<open>w[k] = b\<close> succeeds, changes only the
  complement, which stays boolean, and stores \<^verbatim>\<open>np.invert(b)\<close> there: the complement then
  reads \<open>\<not> b\<close> at every element that \<open>k\<close> selects, and reading \<^verbatim>\<open>w[k]\<close> gives \<open>b\<close> at
  every such element.
\<close>

theorem set_then_get:
  assumes ok: "negative w < length h" and bl: "get_dtype (h ! negative w) = dt_bool"
    and valid: "spm_getitem h (negative w) k = (h0, Inr v0)"
  shows "\<exists>h1. mtm_setitem h w k (SBool b) = (h1, Inr ()) \<and> length h1 = length h
           \<and> get_dtype (h1 ! negative w) = dt_bool
           \<and> (\<forall>r. r \<noteq> negative w \<longrightarrow> h1 ! r = h ! r)
           \<and> (\<exists>h2 v. spm_getitem h1 (negative w) k = (h2, Inr v) \<and>
                 read_dense h2 v = [BoolArr (replicate (key_width (h ! negative w) k) (\<not> b))])
           \<and> (\<exists>h3 v'. mtm_getitem h1 w k = (h3, Inr v') \<and>
                 read_dense h3 v' = [BoolArr (replicate (key_width (h ! negative w) k) b)])"
proof -
  let ?m = "h ! negative w"
  have main: "\<exists>h1. mtm_setitem h w k (SBool b) = (h1, Inr ()) \<and> length h1 = length h
           \<and> get_dtype (h1 ! negative w) = dt_bool
           \<and> (\<forall>r. r \<noteq> negative w \<longrightarrow> h1 ! r = h ! r)
           \<and> (\<exists>h2 v. spm_getitem h1 (negative w) k = (h2, Inr v) \<and>
                 read_dense h2 v = [BoolArr (replicate (key_width ?m k) (\<not> b))])"
  proof (cases k)
    case (KElem i j)
    from valid KElem obtain i' j' where
      ij: "norm_index i (fst (shape ?m)) = Inr i'" "norm_index j (snd (shape ?m)) = Inr j'"
      by (auto simp: spm_getitem_def split: sum.splits)
    let ?m' = "set_elem ?m (i', j') (SBool (\<not> b))"
    have s: "get_dtype ?m' = dt_bool" "shape ?m' = shape ?m" "entry ?m' (i', j') = SBool (\<not> b)"
      using set_elem_bool[OF bl, of "(i', j')" "SBool (\<not> b)" "(i', j')"] by simp_all
    have set: "mtm_setitem h w k (SBool b) = (h[negative w := ?m'], Inr ())"
      using KElem ij by (simp add: mtm_setitem_def spm_setitem_def)
    have get: "spm_getitem (h[negative w := ?m']) (negative w) k
                 = (h[negative w := ?m'], Inr (VScalar (SBool (\<not> b))))"
      using KElem ij ok s by (simp add: spm_getitem_def)
    show ?thesis using set get ok s KElem by (simp add: read_dense_def)
  next
    case (KRow i)
    from valid KRow obtain i' where i': "norm_index i (fst (shape ?m)) = Inr i'"
      by (auto simp: spm_getitem_def split: sum.splits)
    let ?m' = "fold (\<lambda>j m. set_elem m (i', j) (SBool (\<not> b))) [0..<snd (shape ?m)] ?m"
    have s: "get_dtype ?m' = dt_bool" "shape ?m' = shape ?m"
      using fold_set_elem_bool[OF bl] by simp_all
    have e: "\<And>p. p \<in> set (map (Pair i') [0..<snd (shape ?m)]) \<Longrightarrow> entry ?m' p = SBool (\<not> b)"
      using fold_set_elem_bool[OF bl, of i' "SBool (\<not> b)" "[0..<snd (shape ?m)]"] by auto
    have "entries ?m' (map (Pair i') [0..<snd (shape ?m)])
            = BoolArr (replicate (length (map (Pair i') [0..<snd (shape ?m)])) (\<not> b))"
      using e by (intro entries_const[OF s(1)])
    then have rd: "toarray (select_row ?m' i') = [BoolArr (replicate (snd (shape ?m)) (\<not> b))]"
      using toarray_select_row_bool[OF s(1), of i'] s(2) by simp
    have set: "mtm_setitem h w k (SBool b) = (h[negative w := ?m'], Inr ())"
      using KRow i' by (simp add: mtm_setitem_def spm_setitem_def)
    have get: "spm_getitem (h[negative w := ?m']) (negative w) k
                 = (h[negative w := ?m'] @ [select_row ?m' i'], Inr (VSpm (length h)))"
      using KRow i' ok s by (simp add: spm_getitem_def alloc_def)
    show ?thesis using set get ok s KRow rd by (simp add: read_dense_def nth_append)
  qed
  then obtain h1 h2 v where h1: "mtm_setitem h w k (SBool b) = (h1, Inr ())" "length h1 = length h"
    "get_dtype (h1 ! negative w) = dt_bool" "\<forall>r. r \<noteq> negative w \<longrightarrow> h1 ! r = h ! r"
    "spm_getitem h1 (negative w) k = (h2, Inr v)"
    "read_dense h2 v = [BoolArr (replicate (key_width ?m k) (\<not> b))]"
    by blast
  have ok1: "negative w < length h1" using ok h1(2) by simp
  obtain h3 v' where g: "mtm_getitem h1 w k = (h3, Inr v')"
    "read_dense h3 v' = map arr_invert (read_dense h2 v)"
    using getitem_inverts[OF ok1 h1(3) h1(5)] by blast
  have "read_dense h3 v' = [BoolArr (replicate (key_width ?m k) b)]"
    using g(2) h1(6) by simp
  with g(1) h1 show ?thesis by blast
qed


theorem set_then_get_witness:
  "negative \<lparr>negative = 0\<rparr> < length [m_mask] \<and> get_dtype ([m_mask] ! 0) = dt_bool
   \<and> spm_getitem [m_mask] 0 (KElem 1 1) = ([m_mask], Inr (VScalar (SBool False)))
   \<and> mtm_setitem [m_mask] \<lparr>negative = 0\<rparr> (KElem 1 1) (SBool False)
       = ([m_mask\<lparr>index := [(0, 1), (1, 1)], data := BoolArr [True, True]\<rparr>], Inr ())
   \<and> mtm_getitem [m_mask\<lparr>index := [(0, 1), (1, 1)], data := BoolArr [True, True]\<rparr>]
         \<lparr>negative = 0\<rparr> (KElem 1 1)
       = ([m_mask\<lparr>index := [(0, 1), (1, 1)], data := BoolArr [True, True]\<rparr>],
          Inr (VScalar (SBool False)))"
  using set_then_get[of "\<lparr>negative = 0\<rparr>" "[m_mask]" "KElem 1 1" "[m_mask]" "VScalar (SBool False)" False]
  by (simp add: m_mask_def get_dtype_def spm_getitem_def norm_index_def entry_def entry_bool_def
      mtm_setitem_def spm_setitem_def set_elem_def
      mtm_getitem_def delegate_inverted_def py_invert_def)


lemma entry_absent:
  assumes "ij \<notin> set idx"
  shows "entry_int idx xs ij = 0" and "\<not> entry_bool idx bs ij"
proof -
  have "filter (\<lambda>p. fst p = ij) (zip idx xs) = []"
    using assms by (auto simp: filter_empty_conv dest: set_zip_leftD)
  then show "entry_int idx xs ij = 0" by (simp add: entry_int_def)
  show "\<not> entry_bool idx bs ij"
    using assms by (auto simp: entry_bool_def list_ex_iff dest: set_zip_leftD)
qed

lemma entry_int_Cons:
  "entry_int (c # idx) (x # xs) ij = (if c = ij then x else 0) + entry_int idx xs ij"
  by (simp add: entry_int_def)

lemma entry_bool_Cons:
  "entry_bool (c # idx) (b # bs) ij = ((c = ij \<and> b) \<or> entry_bool idx bs ij)"
  by (simp add: entry_bool_def)

lemma entry_bool_map:
  "distinct idx \<Longrightarrow> \<not> f 0 \<Longrightarrow> entry_bool idx (map f xs) ij = f (entry_int idx xs ij)"
proof (induction idx arbitrary: xs)
  case Nil
  then show ?case by (simp add: entry_bool_def entry_int_def)
next
  case (Cons c idx)
  show ?case
  proof (cases xs)
    case Nil
    then show ?thesis using Cons.prems by (simp add: entry_bool_def entry_int_def)
  next
    case (Cons x xs')
    have ih: "entry_bool idx (map f xs') ij = f (entry_int idx xs' ij)"
      using Cons.IH Cons.prems by simp
    show ?thesis
    proof (cases "c = ij")
      case True
      then have "ij \<notin> set idx" using Cons.prems by auto
      then show ?thesis using True Cons entry_absent[of ij idx]
        by (simp add: entry_int_Cons entry_bool_Cons)
    next
      case False
      then show ?thesis using Cons ih by (simp add: entry_int_Cons entry_bool_Cons)
    qed
  qed
qed

lemma entry_int_of_bool:
  "distinct idx \<Longrightarrow>
   entry_int idx (map (\<lambda>b. if b then 1 else 0) bs) ij = (if entry_bool idx bs ij then 1 else 0)"
proof (induction idx arbitrary: bs)
  case Nil
  then show ?case by (simp add: entry_bool_def entry_int_def)
next
  case (Cons c idx)
  show ?case
  proof (cases bs)
    case Nil
    then show ?thesis by (simp add: entry_bool_def entry_int_def)
  next
    case (Cons b bs')
    have ih: "entry_int idx (map (\<lambda>b. if b then 1 else 0) bs') ij
                = (if entry_bool idx bs' ij then 1 else 0)"
      using Cons.IH Cons.prems by simp
    show ?thesis
    proof (cases "c = ij")
      case True
      then have "ij \<notin> set idx" using Cons.prems by auto
      then show ?thesis using True Cons entry_absent[of ij idx]
        by (simp add: entry_int_Cons entry_bool_Cons)
    next
      case False
      then show ?thesis using Cons ih by (simp add: entry_int_Cons entry_bool_Cons)
    qed
  qed
qed

lemma entries_op:
  assumes "distinct (index m)" and "\<not> f 0"
  shows "entries (m\<lparr>data := BoolArr (map f (arr_ints (data m)))\<rparr>) ps
           = BoolArr (map f (arr_ints (entries m ps)))"
proof (cases "data m")
  case (BoolArr bs)
  have "entry_bool (index m) (map f (map (\<lambda>b. if b then 1 else 0) bs))
          = (\<lambda>p. f (if entry_bool (index m) bs p then 1 else 0))"
  proof (rule ext)
    fix p
    show "entry_bool (index m) (map f (map (\<lambda>b. if b then 1 else 0) bs)) p
            = f (if entry_bool (index m) bs p then 1 else 0)"
      using entry_bool_map[where idx = "index m" and f = f
          and xs = "map (\<lambda>b. if b then 1 else 0) bs" and ij = p, OF assms]
        entry_int_of_bool[OF assms(1), of bs p] by (simp only:)
  qed
  then show ?thesis using BoolArr by (simp add: entries_def comp_def)
next
  case (IntArr xs)
  then show ?thesis using assms by (simp add: entries_def entry_bool_map comp_def)
qed

lemma toarray_plain:
  assumes "distinct (index m)" and "\<not> apply_op opr 0 (scalar_int s)"
  shows "toarray (m\<lparr>data := arr_op opr (data m) s\<rparr>) = dense_op opr (toarray m) s"
  using entries_op[OF assms(1), of "\<lambda>x. apply_op opr x (scalar_int s)"] assms(2)
  by (simp add: toarray_def dense_op_def arr_op_def comp_def)

lemma toarray_inverted:
  assumes "distinct (index m)" and "apply_op opr 0 (scalar_int s)"
  shows "map arr_invert (toarray (m\<lparr>data := arr_invert (arr_op opr (data m) s)\<rparr>))
           = dense_op opr (toarray m) s"
  using entries_op[OF assms(1), of "\<lambda>x. \<not> apply_op opr x (scalar_int s)"] assms(2)
  by (simp add: toarray_def dense_op_def arr_op_def comp_def)

text \<open>
  Claim C1, as amended. Each of the six comparisons of a matrix \<open>m\<close> with a scalar \<open>s\<close> is
  \<^verbatim>\<open>_relative\<close> with the operator \<open>op\<close>, which compares the stored data with \<open>s\<close>. If
  \<open>op(0, s)\<close> holds, the result is a complement wrapper around a matrix with the pattern
  of \<open>m\<close> and the data \<^verbatim>\<open>~op(m.data, s)\<close>; otherwise it is the matrix with the pattern
  of \<open>m\<close> and the data \<^verbatim>\<open>op(m.data, s)\<close>. If \<open>m\<close> stores no position twice, the result
  read densely is the elementwise comparison of the dense form of \<open>m\<close> with \<open>s\<close>.
\<close>

theorem comparison_with_scalar:
  "(\<exists>h' v. relative h r (OScalar s) opr = (h', Inr v)
      \<and> (apply_op opr 0 (scalar_int s) \<longrightarrow>
           (\<exists>w. v = VMtm w \<and>
                h' ! negative w = (h ! r)\<lparr>data := arr_invert (arr_op opr (data (h ! r)) s)\<rparr>))
      \<and> (\<not> apply_op opr 0 (scalar_int s) \<longrightarrow>
           (\<exists>r'. v = VSpm r' \<and> h' ! r' = (h ! r)\<lparr>data := arr_op opr (data (h ! r)) s\<rparr>))
      \<and> (distinct (index (h ! r)) \<longrightarrow> read_dense h' v = dense_op opr (toarray (h ! r)) s))
   \<and> data_lt h r x = relative h r x op_lt \<and> data_le h r x = relative h r x op_le
   \<and> data_eq h r x = relative h r x op_eq \<and> data_ne h r x = relative h r x op_ne
   \<and> data_gt h r x = relative h r x op_gt \<and> data_ge h r x = relative h r x op_ge"
proof -
  let ?m = "h ! r"
  have "\<exists>h' v. relative h r (OScalar s) opr = (h', Inr v)
      \<and> (apply_op opr 0 (scalar_int s) \<longrightarrow>
           (\<exists>w. v = VMtm w \<and>
                h' ! negative w = ?m\<lparr>data := arr_invert (arr_op opr (data ?m) s)\<rparr>))
      \<and> (\<not> apply_op opr 0 (scalar_int s) \<longrightarrow>
           (\<exists>r'. v = VSpm r' \<and> h' ! r' = ?m\<lparr>data := arr_op opr (data ?m) s\<rparr>))
      \<and> (distinct (index ?m) \<longrightarrow> read_dense h' v = dense_op opr (toarray ?m) s)"
  proof (cases "apply_op opr 0 (scalar_int s)")
    case True
    let ?n = "?m\<lparr>data := arr_invert (arr_op opr (data ?m) s)\<rparr>"
    have b: "get_dtype ?n = dt_bool" by (simp add: get_dtype_def arr_op_def)
    have "relative h r (OScalar s) opr = (h @ [?n, ?n], Inr (VMtm \<lparr>negative = Suc (length h)\<rparr>))"
      using True b
      by (simp add: relative_def Let_def with_data_def alloc_def mtm_init_def copy_def nth_append)
    moreover have "(h @ [?n, ?n]) ! Suc (length h) = ?n" by (simp add: nth_append)
    ultimately show ?thesis using True toarray_inverted[OF _ True, of ?m]
      by (simp add: read_dense_def)
  next
    case False
    let ?n = "?m\<lparr>data := arr_op opr (data ?m) s\<rparr>"
    have "relative h r (OScalar s) opr = (h @ [?n], Inr (VSpm (length h)))"
      using False by (simp add: relative_def Let_def with_data_def alloc_def)
    then show ?thesis using False toarray_plain[OF _ False, of ?m]
      by (simp add: read_dense_def)
  qed
  then show ?thesis
    by (simp add: data_lt_def data_le_def data_eq_def data_ne_def data_gt_def data_ge_def)
qed


theorem comparison_with_scalar_witness:
  "distinct (index ([m_part] ! 0))
   \<and> apply_op op_le 0 (scalar_int (SInt 0))
   \<and> relative [m_part] 0 (OScalar (SInt 0)) op_le
       = ([m_part, m_part\<lparr>data := BoolArr [False, False]\<rparr>,
           m_part\<lparr>data := BoolArr [False, False]\<rparr>], Inr (VMtm \<lparr>negative = 2\<rparr>))
   \<and> dense_op op_le (toarray m_part) (SInt 0) = [BoolArr [True, True], BoolArr [True, True]]
   \<and> \<not> apply_op op_lt 0 (scalar_int (SInt 0))
   \<and> relative [m_part] 0 (OScalar (SInt 0)) op_lt
       = ([m_part, m_part\<lparr>data := BoolArr [True, True]\<rparr>], Inr (VSpm 1))
   \<and> dense_op op_lt (toarray m_part) (SInt 0) = [BoolArr [True, False], BoolArr [False, True]]"
  using comparison_with_scalar[of "[m_part]" 0 "SInt 0" op_le]
    comparison_with_scalar[of "[m_part]" 0 "SInt 0" op_lt]
  by (simp add: m_part_def relative_def Let_def with_data_def alloc_def mtm_init_def copy_def
      get_dtype_def dense_op_def toarray_def entries_def entry_int_def
      upt_rec[of _ 2] upt_rec[of _ "Suc (Suc 0)"] arr_op_def)

text \<open>
  Claim C1 as stated fails on a matrix that stores a position twice: the two stored ones
  at \<open>(0, 0)\<close> are each different from 2, so \<^verbatim>\<open>m == 2\<close> reads \<open>False\<close> there, while the
  dense form of \<open>m\<close> has 2 at that position.
\<close>

theorem duplicate_entries_counterexample:
  "relative [m_dup] 0 (OScalar (SInt 2)) op_eq
     = ([m_dup, m_dup\<lparr>data := BoolArr [False, False]\<rparr>], Inr (VSpm 1))
   \<and> read_dense [m_dup, m_dup\<lparr>data := BoolArr [False, False]\<rparr>] (VSpm 1) = [BoolArr [False]]
   \<and> dense_op op_eq (toarray m_dup) (SInt 2) = [BoolArr [True]]"
  by (simp add: m_dup_def relative_def Let_def arr_op_def with_data_def alloc_def read_dense_def
      toarray_def entries_def entry_bool_def entry_int_def dense_op_def)


lemma count_row_inverted:
  "length (filter (\<lambda>x. x \<noteq> 0) (arr_ints (arr_invert (BoolArr (map E js)))))
     = length (filter (\<lambda>j. \<not> E j) js)"
  by (induction js) simp_all

lemma length_filter_positions:
  "length (filter Q (positions (nr, nc)))
     = sum_list (map (\<lambda>i. length (filter (\<lambda>j. Q (i, j)) [0..<nc])) [0..<nr])"
proof -
  have "length (filter Q (map (Pair i) js)) = length (filter (\<lambda>j. Q (i, j)) js)" for i and js :: "nat list"
    by (induction js) simp_all
  then show ?thesis
    by (simp add: positions_def filter_concat length_concat comp_def)
qed

lemma length_positions: "length (positions (nr, nc)) = nr * nc"
  by (simp add: positions_def length_concat comp_def sum_list_triv)

lemma distinct_positions_upto: "distinct (concat (map (\<lambda>i. map (Pair i) [0..<nc]) [0..<nr]))"
  by (induction nr) (auto simp: distinct_map inj_on_def)

lemma distinct_positions: "distinct (positions s)"
  by (simp add: positions_def distinct_positions_upto)

lemma set_positions: "set (positions (nr, nc)) = {p. fst p < nr \<and> snd p < nc}"
  by (auto simp: positions_def)

lemma count_true_wrapper:
  assumes "data m = BoolArr bs"
  shows "count_true (map arr_invert (toarray m))
           = length (filter (\<lambda>p. \<not> entry_bool (index m) bs p) (positions (shape m)))"
proof -
  obtain nr nc where s: "shape m = (nr, nc)" by (cases "shape m")
  show ?thesis
    using assms s
    by (simp add: count_true_def toarray_def entries_def comp_def count_row_inverted
        length_filter_positions del: arr_invert.simps arr_ints.simps)
qed

lemma stored_true_positions:
  assumes "distinct idx" and "length idx = length bs"
    and "\<forall>c \<in> set idx. c \<in> set ps" and "distinct ps"
  shows "length (filter (entry_bool idx bs) ps) = length (filter id bs)"
proof -
  let ?T = "filter snd (zip idx bs)"
  have d: "distinct (map fst ?T)"
    using assms(1,2) by (simp add: distinct_map_filter)
  have "set (filter (entry_bool idx bs) ps) = fst ` set ?T"
  proof (intro set_eqI iffI)
    fix p assume "p \<in> set (filter (entry_bool idx bs) ps)"
    then obtain q where "q \<in> set (zip idx bs)" "fst q = p" "snd q"
      by (auto simp: entry_bool_def list_ex_iff)
    then show "p \<in> fst ` set ?T" by force
  next
    fix p assume "p \<in> fst ` set ?T"
    then obtain q where q: "q \<in> set (zip idx bs)" "fst q = p" "snd q" by auto
    have "(fst q, snd q) \<in> set (zip idx bs)" using q(1) by simp
    then have "p \<in> set idx" using q(2) set_zip_leftD by fastforce
    then have "p \<in> set ps" using assms(3) by blast
    moreover have "entry_bool idx bs p" using q by (auto simp: entry_bool_def list_ex_iff)
    ultimately show "p \<in> set (filter (entry_bool idx bs) ps)" by simp
  qed
  then have "card (set (filter (entry_bool idx bs) ps)) = card (set (map fst ?T))" by simp
  then have "length (filter (entry_bool idx bs) ps) = length (map fst ?T)"
    using d assms(4) by (simp only: distinct_card distinct_filter)
  also have "\<dots> = length (filter id (map snd (zip idx bs)))"
    by (simp add: filter_map comp_def)
  also have "\<dots> = length (filter id bs)" using assms(2) by simp
  finally show ?thesis .
qed

lemma sum_bools: "sum_list (map (\<lambda>b. if b then 1 else 0) bs) = int (length (filter id bs))"
  by (induction bs) simp_all


text \<open>
  Claim C2, as amended. \<^verbatim>\<open>w.sum()\<close> with no axis returns the number of positions of the
  shape minus the sum of the stored complement. If the complement is boolean and
  canonical, that is the number of true elements of the matrix that \<open>w\<close> represents, as
  \<^verbatim>\<open>w.toarray()\<close> gives it.
\<close>

theorem sum_counts_true:
  "mtm_sum h w None
     = Inr (VScalar (SInt (int (fst (shape (h ! negative w)) * snd (shape (h ! negative w)))
                            - sum_list (arr_ints (data (h ! negative w))))))
   \<and> spm_sum (h ! negative w) None
     = Inr (VScalar (SInt (sum_list (arr_ints (data (h ! negative w))))))
   \<and> (get_dtype (h ! negative w) = dt_bool \<and> canonical (h ! negative w) \<longrightarrow>
        (\<exists>rows. mtm_toarray h w () = (h, Inr (VDense rows)) \<and>
                mtm_sum h w None = Inr (VScalar (SInt (int (count_true rows))))))"
proof -
  let ?m = "h ! negative w"
  have f: "mtm_sum h w None
     = Inr (VScalar (SInt (int (fst (shape ?m) * snd (shape ?m)) - sum_list (arr_ints (data ?m)))))"
    by (simp add: mtm_sum_def spm_sum_def rsub_def mtm_shape_def delegate_get_def)
  have g: "spm_sum ?m None = Inr (VScalar (SInt (sum_list (arr_ints (data ?m)))))"
    by (simp add: spm_sum_def)
  have c: "mtm_sum h w None
             = Inr (VScalar (SInt (int (count_true (map arr_invert (toarray ?m))))))"
    if bl: "get_dtype ?m = dt_bool" and can: "canonical ?m"
  proof -
    obtain bs where bs: "data ?m = BoolArr bs" using get_dtype_bool[OF bl] by blast
    obtain nr nc where s: "shape ?m = (nr, nc)" by (cases "shape ?m")
    let ?E = "entry_bool (index ?m) bs"
    let ?P = "positions (nr, nc)"
    have inr: "\<forall>c \<in> set (index ?m). c \<in> set ?P"
      using can s by (auto simp: canonical_def list_all_iff set_positions)
    have t: "length (filter ?E ?P) = length (filter id bs)"
      using can bs inr by (intro stored_true_positions) (simp_all add: canonical_def distinct_positions)
    have "length (filter ?E ?P) + length (filter (\<lambda>p. \<not> ?E p) ?P) = nr * nc"
      using sum_length_filter_compl[of ?E ?P] by (simp add: length_positions)
    then have "int (length (filter (\<lambda>p. \<not> ?E p) ?P)) = int (nr * nc) - int (length (filter id bs))"
      using t by linarith
    then show ?thesis
      using f bs s count_true_wrapper[OF bs] by (simp add: sum_bools)
  qed
  show ?thesis using f g c by (simp add: mtm_toarray_eq)
qed



theorem sum_counts_true_witness:
  "get_dtype ([m_mask] ! negative \<lparr>negative = 0\<rparr>) = dt_bool
   \<and> canonical ([m_mask] ! negative \<lparr>negative = 0\<rparr>)
   \<and> mtm_toarray [m_mask] \<lparr>negative = 0\<rparr> ()
       = ([m_mask], Inr (VDense [BoolArr [True, False], BoolArr [True, True]]))
   \<and> mtm_sum [m_mask] \<lparr>negative = 0\<rparr> None = Inr (VScalar (SInt 3))
   \<and> count_true [BoolArr [True, False], BoolArr [True, True]] = 3"
  using sum_counts_true[of "[m_mask]" "\<lparr>negative = 0\<rparr>"]
  by (simp add: m_mask_def get_dtype_def canonical_def mtm_toarray_eq toarray_def entries_def
      entry_bool_def count_true_def upt_rec[of _ 2] upt_rec[of _ "Suc (Suc 0)"])

text \<open>
  Claim C2 as stated fails on a complement that stores a position twice: the wrapper of
  the 1 by 1 matrix with \<open>True\<close> stored twice represents a matrix with no true element,
  and its sum is \<open>1 - 2\<close>.
\<close>

theorem sum_with_duplicates_counterexample:
  "mtm_sum [m_twice] \<lparr>negative = 0\<rparr> None = Inr (VScalar (SInt (- 1)))
   \<and> mtm_toarray [m_twice] \<lparr>negative = 0\<rparr> () = ([m_twice], Inr (VDense [BoolArr [False]]))
   \<and> count_true [BoolArr [False]] = 0"
  by (simp add: m_twice_def mtm_sum_def spm_sum_def rsub_def mtm_shape_def delegate_get_def
      mtm_toarray_eq toarray_def entries_def entry_bool_def count_true_def)


end
